theory Spec2Isabelle
  imports Complex_Main "HOL-Library.AList"
begin

section \<open>Persona manager of specx_cli: data model\<close>

text \<open>
  The theory embeds \<^verbatim>\<open>src/specx_cli/persona_manager.py\<close> and the part of
  \<^verbatim>\<open>src/specx_cli/agent_persona_context.py\<close> that the manager calls.

  Conventions of the embedding.
  \<^item> A Python \<^verbatim>\<open>str\<close> is a \<open>string\<close> (the UTF-8 bytes of the text).
  \<^item> A Python \<^verbatim>\<open>int\<close> is an \<open>int\<close>. A Python \<^verbatim>\<open>float\<close> is a \<open>rat\<close>: the
    arithmetic of the source (\<^verbatim>\<open>+\<close>, \<^verbatim>\<open>-\<close>, \<^verbatim>\<open>/\<close>, \<^verbatim>\<open>* 100\<close>) is taken exactly,
    rounding is not modelled.
  \<^item> A Python \<^verbatim>\<open>dict\<close> is an association list in insertion order, with distinct
    keys; assignment to a key is \<open>AList.update\<close> (in place when the key is there, at
    the end otherwise), lookup is \<open>map_of\<close>.
  \<^item> What the standard library does is not code of the repository: the \<^verbatim>\<open>json\<close>
    module is seen through the value it parses a file to, \<^verbatim>\<open>datetime\<close> through
    the readings of the clock and the seconds between two timestamps.
\<close>

datatype json =
    JNull
  | JBool bool
  | JInt int
  | JFloat rat
  | JStr string
  | JArr "json list"
  | JObj "(string \<times> json) list"

datatype error =
    FileNotFoundError
  | JSONDecodeError
  | AttributeError
  | TypeError
  | ValueError

text \<open>Python's truth value of a parsed JSON value (\<^verbatim>\<open>if x:\<close>).\<close>

fun truthy :: "json \<Rightarrow> bool" where
  "truthy JNull = False"
| "truthy (JBool b) = b"
| "truthy (JInt n) = (n \<noteq> 0)"
| "truthy (JFloat r) = (r \<noteq> 0)"
| "truthy (JStr s) = (s \<noteq> [])"
| "truthy (JArr xs) = (xs \<noteq> [])"
| "truthy (JObj kvs) = (kvs \<noteq> [])"

text \<open>
  A file of the project directory, as \<^verbatim>\<open>open\<close> and \<^verbatim>\<open>json.load\<close> see it: not
  there (\<^verbatim>\<open>open\<close> raises), there with bytes that \<^verbatim>\<open>json.load\<close> rejects, or there
  with a JSON document. \<^verbatim>\<open>json.dump\<close> of a value leaves the document of that value.
\<close>

datatype storage = Missing | Unparsable | Document json

fun json_load :: "storage \<Rightarrow> error + json" where
  "json_load Missing = Inl FileNotFoundError"
| "json_load Unparsable = Inl JSONDecodeError"
| "json_load (Document j) = Inr j"

record PersonaContext =
  persona_id :: string
  activated_at :: string
  deactivated_at :: "string option"
  phase :: "string option"
  artifacts :: "string list"
  metrics :: "(string \<times> json) list"
  notes_list :: "string list"

record PersonaPerformance =
  perf_persona_id :: string
  total_sessions :: int
  total_duration_seconds :: rat
  phases_completed :: "(string \<times> int) list"
  artifacts_created :: int
  error_count :: int
  success_rate :: rat
  last_active :: "string option"

text \<open>
  The field \<^verbatim>\<open>persona_id\<close> of \<^verbatim>\<open>PersonaPerformance\<close> is \<open>perf_persona_id\<close> here,
  since two records of one theory cannot share a field name, and the field \<^verbatim>\<open>notes\<close>
  of \<^verbatim>\<open>PersonaContext\<close> is \<open>notes_list\<close>, since \<open>notes\<close> is a keyword of Isabelle.
  In the JSON documents both keep the names of the source.
\<close>

subsection \<open>\<^verbatim>\<open>dataclasses.asdict\<close> and the dataclass constructors\<close>

definition json_opt_str :: "string option \<Rightarrow> json" where
  "json_opt_str x = (case x of None \<Rightarrow> JNull | Some s \<Rightarrow> JStr s)"

definition asdict_context :: "PersonaContext \<Rightarrow> json" where
  "asdict_context c = JObj
     [(''persona_id'', JStr (persona_id c)),
      (''activated_at'', JStr (activated_at c)),
      (''deactivated_at'', json_opt_str (deactivated_at c)),
      (''phase'', json_opt_str (phase c)),
      (''artifacts'', JArr (map JStr (artifacts c))),
      (''metrics'', JObj (metrics c)),
      (''notes'', JArr (map JStr (notes_list c)))]"

definition asdict_performance :: "PersonaPerformance \<Rightarrow> json" where
  "asdict_performance p = JObj
     [(''persona_id'', JStr (perf_persona_id p)),
      (''total_sessions'', JInt (total_sessions p)),
      (''total_duration_seconds'', JFloat (total_duration_seconds p)),
      (''phases_completed'', JObj (map (\<lambda>(k, n). (k, JInt n)) (phases_completed p))),
      (''artifacts_created'', JInt (artifacts_created p)),
      (''error_count'', JInt (error_count p)),
      (''success_rate'', JFloat (success_rate p)),
      (''last_active'', json_opt_str (last_active p))]"

text \<open>
  Reading a JSON value at the type a dataclass field is annotated with. The dataclass
  constructors of the source do not check the types of their arguments: a document
  whose values have other types gives an object that is no \<^verbatim>\<open>PersonaContext\<close> of the
  declared type, and the record types here cannot hold it. The constructors below
  answer \<open>TypeError\<close> there, as they do for a keyword that is no field and for a
  required field that is missing (where Python raises it).
\<close>

fun as_str :: "json \<Rightarrow> string option" where
  "as_str (JStr s) = Some s"
| "as_str _ = None"

fun as_opt_str :: "json \<Rightarrow> string option option" where
  "as_opt_str JNull = Some None"
| "as_opt_str (JStr s) = Some (Some s)"
| "as_opt_str _ = None"

fun as_int :: "json \<Rightarrow> int option" where
  "as_int (JInt n) = Some n"
| "as_int _ = None"

fun as_float :: "json \<Rightarrow> rat option" where
  "as_float (JFloat r) = Some r"
| "as_float (JInt n) = Some (of_int n)"
| "as_float _ = None"

fun as_str_list :: "json \<Rightarrow> string list option" where
  "as_str_list (JArr xs) = those (map as_str xs)"
| "as_str_list _ = None"

fun as_dict :: "json \<Rightarrow> (string \<times> json) list option" where
  "as_dict (JObj kvs) = Some kvs"
| "as_dict _ = None"

fun as_int_dict :: "json \<Rightarrow> (string \<times> int) list option" where
  "as_int_dict (JObj kvs) =
     those (map (\<lambda>(k, v). map_option (\<lambda>n. (k, n)) (as_int v)) kvs)"
| "as_int_dict _ = None"

text \<open>The value of a keyword argument, or the default of the field when it is not given.\<close>

definition kwarg :: "(string \<times> json) list \<Rightarrow> string \<Rightarrow> json \<Rightarrow> json" where
  "kwarg kw k dflt = (case map_of kw k of None \<Rightarrow> dflt | Some v \<Rightarrow> v)"

definition context_fields :: "string list" where
  "context_fields =
     [''persona_id'', ''activated_at'', ''deactivated_at'', ''phase'',
      ''artifacts'', ''metrics'', ''notes'']"

definition performance_fields :: "string list" where
  "performance_fields =
     [''persona_id'', ''total_sessions'', ''total_duration_seconds'', ''phases_completed'',
      ''artifacts_created'', ''error_count'', ''success_rate'', ''last_active'']"

text \<open>\<^verbatim>\<open>PersonaContext(**kw)\<close>.\<close>

definition PersonaContext_init :: "(string \<times> json) list \<Rightarrow> error + PersonaContext" where
  "PersonaContext_init kw =
     (if \<not> list_all (\<lambda>k. k \<in> set context_fields) (map fst kw) then Inl TypeError
      else if map_of kw ''persona_id'' = None \<or> map_of kw ''activated_at'' = None
      then Inl TypeError
      else
        (case (as_str (kwarg kw ''persona_id'' JNull),
               as_str (kwarg kw ''activated_at'' JNull),
               as_opt_str (kwarg kw ''deactivated_at'' JNull),
               as_opt_str (kwarg kw ''phase'' JNull),
               as_str_list (kwarg kw ''artifacts'' (JArr [])),
               as_dict (kwarg kw ''metrics'' (JObj [])),
               as_str_list (kwarg kw ''notes'' (JArr []))) of
           (Some p, Some a, Some d, Some ph, Some ar, Some me, Some no) \<Rightarrow>
             Inr \<lparr>persona_id = p, activated_at = a, deactivated_at = d, phase = ph,
                  artifacts = ar, metrics = me, notes_list = no\<rparr>
         | _ \<Rightarrow> Inl TypeError))"

text \<open>\<^verbatim>\<open>PersonaPerformance(persona_id=pid)\<close>: every other field at its default.\<close>

definition PersonaPerformance_new :: "string \<Rightarrow> PersonaPerformance" where
  "PersonaPerformance_new pid =
     \<lparr>perf_persona_id = pid, total_sessions = 0, total_duration_seconds = 0,
      phases_completed = [], artifacts_created = 0, error_count = 0,
      success_rate = 100, last_active = None\<rparr>"

text \<open>\<^verbatim>\<open>PersonaPerformance(**kw)\<close>.\<close>

definition PersonaPerformance_init :: "(string \<times> json) list \<Rightarrow> error + PersonaPerformance" where
  "PersonaPerformance_init kw =
     (if \<not> list_all (\<lambda>k. k \<in> set performance_fields) (map fst kw) then Inl TypeError
      else if map_of kw ''persona_id'' = None then Inl TypeError
      else
        (case (as_str (kwarg kw ''persona_id'' JNull),
               as_int (kwarg kw ''total_sessions'' (JInt 0)),
               as_float (kwarg kw ''total_duration_seconds'' (JFloat 0)),
               as_int_dict (kwarg kw ''phases_completed'' (JObj [])),
               as_int (kwarg kw ''artifacts_created'' (JInt 0)),
               as_int (kwarg kw ''error_count'' (JInt 0)),
               as_float (kwarg kw ''success_rate'' (JFloat 100)),
               as_opt_str (kwarg kw ''last_active'' JNull)) of
           (Some p, Some ts, Some td, Some pc, Some ac, Some ec, Some sr, Some la) \<Rightarrow>
             Inr \<lparr>perf_persona_id = p, total_sessions = ts, total_duration_seconds = td,
                  phases_completed = pc, artifacts_created = ac, error_count = ec,
                  success_rate = sr, last_active = la\<rparr>
         | _ \<Rightarrow> Inl TypeError))"

section \<open>The manager and its files\<close>

text \<open>
  What \<^verbatim>\<open>datetime\<close> contributes: \<open>clock e n\<close> is the string that the \<open>n\<close>-th call of
  \<^verbatim>\<open>datetime.now().isoformat()\<close> returns, and \<open>seconds_between e a b\<close> is
  \<^verbatim>\<open>(datetime.fromisoformat(b) - datetime.fromisoformat(a)).total_seconds()\<close>, or the
  exception that the library raises on the way.
\<close>

record env =
  clock :: "nat \<Rightarrow> string"
  seconds_between :: "string \<Rightarrow> string \<Rightarrow> error + rat"

text \<open>
  The marker file \<^verbatim>\<open>CURRENT_PERSONA.md\<close> of an assistant holds a text rendered from
  the persona and the phase; it is kept as the two arguments, the markdown around them
  is not modelled.
\<close>

datatype marker = CurrentPersona string "string option"

text \<open>
  A \<^verbatim>\<open>PersonaManager\<close> together with the files of its project directory: the
  attribute \<^verbatim>\<open>current_context\<close>, the three state files under \<^verbatim>\<open>.specify\<close>, the
  marker files by path, and the number of clock readings taken so far.
\<close>

record manager =
  current_context :: "PersonaContext option"
  state_file :: storage
  history_file :: storage
  performance_file :: storage
  marker_files :: "string \<Rightarrow> marker option"
  ticks :: nat

definition now :: "env \<Rightarrow> manager \<Rightarrow> string \<times> manager" where
  "now e m = (clock e (ticks m), m\<lparr>ticks := Suc (ticks m)\<rparr>)"

subsection \<open>The state store\<close>

definition save_state :: "env \<Rightarrow> manager \<Rightarrow> manager" where
  "save_state e m =
     (let current = (case current_context m of None \<Rightarrow> JNull | Some c \<Rightarrow> asdict_context c);
          (t, m') = now e m;
          state = JObj [(''current_persona'', current), (''updated_at'', JStr t)]
      in m'\<lparr>state_file := Document state\<rparr>)"

text \<open>
  The body of the \<^verbatim>\<open>try\<close> of \<^verbatim>\<open>_load_state\<close>: the context that it assigns, \<open>None\<close>
  when \<^verbatim>\<open>data.get("current_persona")\<close> is not truthy and nothing is assigned.
\<close>

definition load_state_try :: "storage \<Rightarrow> error + PersonaContext option" where
  "load_state_try f =
     (case json_load f of
        Inl err \<Rightarrow> Inl err
      | Inr data \<Rightarrow>
          (case data of
             JObj items \<Rightarrow>
               (case map_of items ''current_persona'' of
                  None \<Rightarrow> Inr None
                | Some v \<Rightarrow>
                    if truthy v then
                      (case v of
                         JObj kw \<Rightarrow>
                           (case PersonaContext_init kw of
                              Inl err \<Rightarrow> Inl err
                            | Inr c \<Rightarrow> Inr (Some c))
                       | _ \<Rightarrow> Inl TypeError)
                    else Inr None)
           | _ \<Rightarrow> Inl AttributeError))"

definition load_state :: "manager \<Rightarrow> manager" where
  "load_state m =
     (case load_state_try (state_file m) of
        Inl err \<Rightarrow> m\<lparr>current_context := None\<rparr>
      | Inr None \<Rightarrow> m
      | Inr (Some c) \<Rightarrow> m\<lparr>current_context := Some c\<rparr>)"

definition load_history :: "manager \<Rightarrow> json" where
  "load_history m =
     (case json_load (history_file m) of Inl err \<Rightarrow> JArr [] | Inr history \<Rightarrow> history)"

definition save_history :: "json \<Rightarrow> manager \<Rightarrow> manager" where
  "save_history history m = m\<lparr>history_file := Document history\<rparr>"

text \<open>The dictionary comprehension of \<^verbatim>\<open>_load_performance\<close>, item by item.\<close>

fun performance_items :: "(string \<times> json) list \<Rightarrow> error + (string \<times> PersonaPerformance) list" where
  "performance_items [] = Inr []"
| "performance_items ((pid, pdata) # rest) =
     (case pdata of
        JObj kw \<Rightarrow>
          (case PersonaPerformance_init kw of
             Inl err \<Rightarrow> Inl err
           | Inr p \<Rightarrow>
               (case performance_items rest of
                  Inl err \<Rightarrow> Inl err
                | Inr ps \<Rightarrow> Inr ((pid, p) # ps)))
      | _ \<Rightarrow> Inl TypeError)"

definition load_performance_try :: "storage \<Rightarrow> error + (string \<times> PersonaPerformance) list" where
  "load_performance_try f =
     (case json_load f of
        Inl err \<Rightarrow> Inl err
      | Inr data \<Rightarrow>
          (case data of
             JObj items \<Rightarrow> performance_items items
           | _ \<Rightarrow> Inl AttributeError))"

definition load_performance :: "manager \<Rightarrow> (string \<times> PersonaPerformance) list" where
  "load_performance m =
     (case load_performance_try (performance_file m) of
        Inl err \<Rightarrow> []
      | Inr performance \<Rightarrow> performance)"

text \<open>
  \<^verbatim>\<open>_save_performance\<close>: every value of the mapping is a \<^verbatim>\<open>PersonaPerformance\<close>
  (\<^verbatim>\<open>_load_performance\<close> builds no other), so the \<^verbatim>\<open>isinstance\<close> branch is the one taken.
\<close>

definition save_performance :: "(string \<times> PersonaPerformance) list \<Rightarrow> manager \<Rightarrow> manager" where
  "save_performance performance m =
     m\<lparr>performance_file :=
         Document (JObj (map (\<lambda>(pid, perf). (pid, asdict_performance perf)) performance))\<rparr>"

text \<open>\<^verbatim>\<open>_ensure_files\<close> and \<^verbatim>\<open>__init__\<close>: a file exists unless it is \<open>Missing\<close>.\<close>

definition ensure_files :: "env \<Rightarrow> manager \<Rightarrow> manager" where
  "ensure_files e m =
     (let m1 = (if state_file m = Missing then save_state e m else m);
          m2 = (if history_file m1 = Missing then save_history (JArr []) m1 else m1);
          m3 = (if performance_file m2 = Missing then save_performance [] m2 else m2)
      in m3)"

definition PersonaManager_init :: "env \<Rightarrow> manager \<Rightarrow> manager" where
  "PersonaManager_init e m = load_state (ensure_files e (m\<lparr>current_context := None\<rparr>))"

subsection \<open>The agent context notifier\<close>

definition context_paths :: "(string \<times> string) list" where
  "context_paths =
     [(''copilot'', ''.github/CURRENT_PERSONA.md''),
      (''claude'', ''.claude/CURRENT_PERSONA.md''),
      (''cursor-agent'', ''.cursor/CURRENT_PERSONA.md''),
      (''windsurf'', ''.windsurf/CURRENT_PERSONA.md''),
      (''gemini'', ''.gemini/CURRENT_PERSONA.md''),
      (''qwen'', ''.qwen/CURRENT_PERSONA.md''),
      (''opencode'', ''.opencode/CURRENT_PERSONA.md''),
      (''codex'', ''.codex/CURRENT_PERSONA.md''),
      (''kilocode'', ''.kilocode/CURRENT_PERSONA.md''),
      (''auggie'', ''.augment/CURRENT_PERSONA.md''),
      (''codebuddy'', ''.codebuddy/CURRENT_PERSONA.md''),
      (''roo'', ''.roo/CURRENT_PERSONA.md''),
      (''q'', ''.amazonq/CURRENT_PERSONA.md''),
      (''amp'', ''.agents/CURRENT_PERSONA.md'')]"

definition create_agent_context_file ::
    "string \<Rightarrow> string option \<Rightarrow> string option \<Rightarrow> manager \<Rightarrow> bool \<times> manager" where
  "create_agent_context_file ai_assistant pid ph m =
     (case map_of context_paths ai_assistant of
        None \<Rightarrow> (False, m)
      | Some context_file \<Rightarrow>
          if context_file = [] then (False, m)
          else
            (case pid of
               None \<Rightarrow> (True, m\<lparr>marker_files := (marker_files m)(context_file := None)\<rparr>)
             | Some p \<Rightarrow>
                 (True, m\<lparr>marker_files :=
                            (marker_files m)(context_file \<mapsto> CurrentPersona p ph)\<rparr>)))"

definition update_agent_context ::
    "string \<Rightarrow> string option \<Rightarrow> string option \<Rightarrow> manager \<Rightarrow> manager" where
  "update_agent_context ai_assistant pid ph m =
     snd (create_agent_context_file ai_assistant pid ph m)"

section \<open>Operations of the manager\<close>

subsection \<open>Strings\<close>

text \<open>
  \<^verbatim>\<open>str.lower\<close> on the letters \<open>A\<close> to \<open>Z\<close>. Outside ASCII Python lowers further
  letters, but none of them to a letter of \<^verbatim>\<open>error\<close>, so the test below is the one of
  the source.
\<close>

definition lower_char :: "char \<Rightarrow> char" where
  "lower_char c =
     (let n = (of_char c :: nat) in if 65 \<le> n \<and> n \<le> 90 then char_of (n + 32) else c)"

definition lower :: "string \<Rightarrow> string" where
  "lower s = map lower_char s"

fun starts_with :: "string \<Rightarrow> string \<Rightarrow> bool" where
  "starts_with s [] = True"
| "starts_with [] (p # ps) = False"
| "starts_with (c # cs) (p # ps) = (c = p \<and> starts_with cs ps)"

text \<open>\<open>contains s sub\<close> is Python's \<^verbatim>\<open>sub in s\<close>.\<close>

fun contains :: "string \<Rightarrow> string \<Rightarrow> bool" where
  "contains [] sub = (sub = [])"
| "contains (c # cs) sub = (starts_with (c # cs) sub \<or> contains cs sub)"

definition has_error_note :: "PersonaContext \<Rightarrow> bool" where
  "has_error_note context = list_ex (\<lambda>note. contains (lower note) ''error'') (notes_list context)"

subsection \<open>Performance\<close>

text \<open>
  The lines of \<^verbatim>\<open>_update_performance\<close> between the lookup of the record and its
  assignment back into the mapping.
\<close>

definition update_metrics :: "PersonaContext \<Rightarrow> rat \<Rightarrow> PersonaPerformance \<Rightarrow> PersonaPerformance" where
  "update_metrics context duration perf =
     (let perf1 = perf\<lparr>total_sessions := total_sessions perf + 1,
                      total_duration_seconds := total_duration_seconds perf + duration,
                      artifacts_created := artifacts_created perf + int (length (artifacts context)),
                      last_active := deactivated_at context\<rparr>;
          perf2 = (case phase context of
                     None \<Rightarrow> perf1
                   | Some ph \<Rightarrow>
                       if ph = [] then perf1
                       else perf1\<lparr>phases_completed :=
                              AList.update ph
                                ((case map_of (phases_completed perf1) ph of
                                    None \<Rightarrow> 0 | Some n \<Rightarrow> n) + 1)
                                (phases_completed perf1)\<rparr>);
          perf3 = (if has_error_note context
                   then perf2\<lparr>error_count := error_count perf2 + 1\<rparr> else perf2);
          perf4 = (if total_sessions perf3 > 0
                   then perf3\<lparr>success_rate :=
                          (of_int (total_sessions perf3 - error_count perf3)
                             / of_int (total_sessions perf3)) * 100\<rparr>
                   else perf3)
      in perf4)"

definition update_performance :: "PersonaContext \<Rightarrow> rat \<Rightarrow> manager \<Rightarrow> manager" where
  "update_performance context duration m =
     (let performance = load_performance m;
          perf = (case map_of performance (persona_id context) of
                    None \<Rightarrow> PersonaPerformance_new (persona_id context)
                  | Some p \<Rightarrow> p);
          perf' = update_metrics context duration perf
      in save_performance (AList.update (persona_id context) perf' performance) m)"

subsection \<open>Activation, deactivation, switch\<close>

text \<open>
  An operation that can raise returns \<open>Inl\<close> of the exception, which leaves the call:
  at both places where \<^verbatim>\<open>deactivate_persona\<close> can raise, no file has been written yet.
  \<^verbatim>\<open>list.append\<close> on the loaded history raises \<open>AttributeError\<close> when the document
  is no list.
\<close>

definition history_append :: "json \<Rightarrow> json \<Rightarrow> error + json" where
  "history_append history entry =
     (case history of JArr entries \<Rightarrow> Inr (JArr (entries @ [entry])) | _ \<Rightarrow> Inl AttributeError)"

definition deactivate_persona ::
    "env \<Rightarrow> string option \<Rightarrow> manager \<Rightarrow> error + ((string \<times> json) list option \<times> manager)" where
  "deactivate_persona e ai_assistant m =
     (case current_context m of
        None \<Rightarrow> Inr (None, m)
      | Some c0 \<Rightarrow>
          (let (t, m1) = now e m;
               c = c0\<lparr>deactivated_at := Some t\<rparr>;
               m2 = m1\<lparr>current_context := Some c\<rparr>
           in case seconds_between e (activated_at c) t of
                Inl err \<Rightarrow> Inl err
              | Inr duration \<Rightarrow>
                  (case history_append (load_history m2) (asdict_context c) of
                     Inl err \<Rightarrow> Inl err
                   | Inr history \<Rightarrow>
                       (let m3 = save_history history m2;
                            m4 = update_performance c duration m3;
                            result = [(''status'', JStr ''deactivated''),
                                      (''persona'', JStr (persona_id c)),
                                      (''duration_seconds'', JFloat duration),
                                      (''artifacts'', JInt (int (length (artifacts c))))];
                            m5 = save_state e (m4\<lparr>current_context := None\<rparr>)
                        in Inr (Some result, m5)))))"

definition activate_persona ::
    "env \<Rightarrow> string \<Rightarrow> string option \<Rightarrow> string option \<Rightarrow> manager
       \<Rightarrow> error + ((string \<times> json) list \<times> manager)" where
  "activate_persona e pid ph ai_assistant m =
     (case (if current_context m \<noteq> None then deactivate_persona e ai_assistant m
            else Inr (None, m)) of
        Inl err \<Rightarrow> Inl err
      | Inr (_, m1) \<Rightarrow>
          (let (t, m2) = now e m1;
               c = \<lparr>persona_id = pid, activated_at = t, deactivated_at = None, phase = ph,
                    artifacts = [], metrics = [], notes_list = []\<rparr>;
               m3 = save_state e (m2\<lparr>current_context := Some c\<rparr>);
               m4 = (case ai_assistant of
                       None \<Rightarrow> m3
                     | Some a \<Rightarrow> if a = [] then m3 else update_agent_context a (Some pid) ph m3)
           in Inr ([(''status'', JStr ''activated''),
                    (''persona'', JStr pid),
                    (''phase'', json_opt_str ph),
                    (''activated_at'', JStr t)], m4)))"



subsection \<open>Mutations of the active context\<close>

definition add_artifact :: "env \<Rightarrow> string \<Rightarrow> manager \<Rightarrow> manager" where
  "add_artifact e artifact_path m =
     (case current_context m of
        None \<Rightarrow> m
      | Some c \<Rightarrow>
          save_state e
            (m\<lparr>current_context := Some (c\<lparr>artifacts := artifacts c @ [artifact_path]\<rparr>)\<rparr>))"

definition add_note :: "env \<Rightarrow> string \<Rightarrow> manager \<Rightarrow> manager" where
  "add_note e note m =
     (case current_context m of
        None \<Rightarrow> m
      | Some c \<Rightarrow>
          (let (t, m1) = now e m
           in save_state e
                (m1\<lparr>current_context :=
                      Some (c\<lparr>notes_list := notes_list c @ [''['' @ t @ ''] '' @ note]\<rparr>)\<rparr>)))"

definition update_phase :: "env \<Rightarrow> string \<Rightarrow> manager \<Rightarrow> manager" where
  "update_phase e ph m =
     (case current_context m of
        None \<Rightarrow> m
      | Some c \<Rightarrow> save_state e (m\<lparr>current_context := Some (c\<lparr>phase := Some ph\<rparr>)\<rparr>))"

section \<open>Runs of the manager\<close>

text \<open>
  A completed session, as \<^verbatim>\<open>deactivate_persona\<close> hands it to \<^verbatim>\<open>_update_performance\<close>:
  the context at deactivation and the duration. \<open>fold_sessions\<close> folds a list of them
  into the performance file, in order.
\<close>

fun fold_sessions :: "(PersonaContext \<times> rat) list \<Rightarrow> manager \<Rightarrow> manager" where
  "fold_sessions [] m = m"
| "fold_sessions ((context, duration) # rest) m =
     fold_sessions rest (update_performance context duration m)"

text \<open>The record of a persona in a performance mapping, the fresh record when it has none.\<close>

definition record_of :: "(string \<times> PersonaPerformance) list \<Rightarrow> string \<Rightarrow> PersonaPerformance" where
  "record_of performance pid =
     (case map_of performance pid of None \<Rightarrow> PersonaPerformance_new pid | Some p \<Rightarrow> p)"






text \<open>
  The entries of the history, and the contexts that are active: a context is active
  when it has no \<^verbatim>\<open>deactivated_at\<close>. They are counted over the current context and
  the entries of the history.
\<close>

definition history_entries :: "manager \<Rightarrow> json list" where
  "history_entries m = (case load_history m of JArr entries \<Rightarrow> entries | _ \<Rightarrow> [])"

definition entry_active :: "json \<Rightarrow> bool" where
  "entry_active entry =
     (case entry of
        JObj items \<Rightarrow>
          (case map_of items ''deactivated_at'' of
             None \<Rightarrow> True
           | Some v \<Rightarrow> v = JNull)
      | _ \<Rightarrow> False)"


text \<open>
  The conditions under which the operations are specified. The readings of the clock
  are timestamps, so the library gives the seconds between any two of them, and between
  the activation time of a context and any of them. The history file is missing,
  unparsable or a list, and holds no active entry.
\<close>

definition timestamp_ok :: "env \<Rightarrow> string \<Rightarrow> bool" where
  "timestamp_ok e a = (\<forall>n. \<exists>d. seconds_between e a (clock e n) = Inr d)"


definition history_ok :: "manager \<Rightarrow> bool" where
  "history_ok m =
     ((\<exists>entries. load_history m = JArr entries)
      \<and> list_all (\<lambda>entry. \<not> entry_active entry) (history_entries m))"

definition manager_ok :: "env \<Rightarrow> manager \<Rightarrow> bool" where
  "manager_ok e m =
     (history_ok m
      \<and> (case current_context m of
           None \<Rightarrow> True
         | Some c \<Rightarrow> deactivated_at c = None \<and> timestamp_ok e (activated_at c)))"

subsection \<open>Example data\<close>

text \<open>
  A clock that reads 09:00:00 first and 09:10:00 from then on, a manager just built
  in a fresh project, and a manager with a context activated at 09:00:00.
\<close>

definition example_times :: "(string \<times> rat) list" where
  "example_times = [(''2024-05-01T09:00:00'', 0), (''2024-05-01T09:10:00'', 600)]"

definition example_env :: env where
  "example_env =
     \<lparr>clock = (\<lambda>n. if n = 0 then ''2024-05-01T09:00:00'' else ''2024-05-01T09:10:00''),
      seconds_between =
        (\<lambda>a b. case (map_of example_times a, map_of example_times b) of
                  (Some x, Some y) \<Rightarrow> Inr (y - x)
                | _ \<Rightarrow> Inl ValueError)\<rparr>"

definition idle_manager :: manager where
  "idle_manager =
     \<lparr>current_context = None,
      state_file = Document (JObj [(''current_persona'', JNull),
                                   (''updated_at'', JStr ''2024-05-01T08:00:00'')]),
      history_file = Document (JArr []),
      performance_file = Document (JObj []),
      marker_files = (\<lambda>path. None),
      ticks = 0\<rparr>"

definition example_context :: PersonaContext where
  "example_context =
     \<lparr>persona_id = ''business-analyst'', activated_at = ''2024-05-01T09:00:00'',
      deactivated_at = None, phase = Some ''specify'',
      artifacts = [''docs/ba/requirements.md''], metrics = [], notes_list = []\<rparr>"

definition active_manager :: manager where
  "active_manager =
     \<lparr>current_context = Some example_context,
      state_file = Document (JObj [(''current_persona'', asdict_context example_context),
                                   (''updated_at'', JStr ''2024-05-01T09:00:00'')]),
      history_file = Document (JArr []),
      performance_file = Document (JObj []),
      marker_files = (\<lambda>path. None),
      ticks = 1\<rparr>"

text \<open>The context as \<^verbatim>\<open>deactivate_persona\<close> stamps it: the next reading of the clock.\<close>

definition deactivated :: "env \<Rightarrow> manager \<Rightarrow> PersonaContext \<Rightarrow> PersonaContext" where
  "deactivated e m c = c\<lparr>deactivated_at := Some (clock e (ticks m))\<rparr>"

text \<open>The records that a list of sessions of one persona leads through.\<close>

definition fold_metrics :: "(PersonaContext \<times> rat) list \<Rightarrow> PersonaPerformance \<Rightarrow> PersonaPerformance" where
  "fold_metrics ss perf = foldl (\<lambda>perf s. update_metrics (fst s) (snd s) perf) perf ss"

text \<open>Two sessions of \<^verbatim>\<open>tech-lead\<close>, the first with a note of a failed build.\<close>

definition example_sessions :: "(PersonaContext \<times> rat) list" where
  "example_sessions =
     [(\<lparr>persona_id = ''tech-lead'', activated_at = ''2024-05-01T09:00:00'',
        deactivated_at = Some ''2024-05-01T09:10:00'', phase = Some ''implement'',
        artifacts = [''src/build.py''], metrics = [],
        notes_list = [''[2024-05-01T09:05:00] Error: build failed'']\<rparr>, 600),
      (\<lparr>persona_id = ''tech-lead'', activated_at = ''2024-05-01T09:10:00'',
        deactivated_at = Some ''2024-05-01T09:10:00'', phase = None,
        artifacts = [], metrics = [], notes_list = [''[2024-05-01T09:10:00] build fixed'']\<rparr>, 0)]"

text \<open>The invariant of a performance record.\<close>

definition record_ok :: "PersonaPerformance \<Rightarrow> bool" where
  "record_ok perf =
     (0 \<le> error_count perf \<and> error_count perf \<le> total_sessions perf
      \<and> 0 \<le> success_rate perf \<and> success_rate perf \<le> 100)"

section \<open>Properties of the state store\<close>

lemma those_map_Some: "those (map Some xs) = Some xs"
  by (induction xs) simp_all

lemma as_str_list_JArr [simp]: "as_str_list (JArr (map JStr xs)) = Some xs"
  by (simp add: comp_def those_map_Some)

lemma as_opt_str_json [simp]: "as_opt_str (json_opt_str x) = Some x"
  by (cases x) (simp_all add: json_opt_str_def)

lemma those_int_items:
  "those (map (\<lambda>(k, v). map_option (\<lambda>n. (k, n)) (as_int v)) (map (\<lambda>(k, n). (k, JInt n)) xs))
     = Some xs"
  by (induction xs) auto

lemma as_int_dict_JObj [simp]:
  "as_int_dict (JObj (map (\<lambda>(k, n). (k, JInt n)) xs)) = Some xs"
  using those_int_items [of xs] by simp

lemma PersonaContext_init_asdict:
  "asdict_context c = JObj kw \<Longrightarrow> PersonaContext_init kw = Inr c"
  unfolding asdict_context_def PersonaContext_init_def context_fields_def kwarg_def
  by (auto simp del: as_str_list.simps)

lemma PersonaPerformance_init_asdict:
  "asdict_performance p = JObj kw \<Longrightarrow> PersonaPerformance_init kw = Inr p"
  unfolding asdict_performance_def PersonaPerformance_init_def performance_fields_def kwarg_def
  by (auto simp del: as_int_dict.simps)

lemma load_state_try_save:
  "load_state_try (state_file (save_state e m)) = Inr (current_context m)"
proof (cases "current_context m")
  case None
  then show ?thesis
    by (simp add: save_state_def now_def load_state_try_def Let_def split_def)
next
  case (Some c)
  obtain kw where kw: "asdict_context c = JObj kw" and ne: "kw \<noteq> []"
    by (simp add: asdict_context_def)
  with Some show ?thesis
    by (simp add: save_state_def now_def load_state_try_def Let_def split_def
        PersonaContext_init_asdict)
qed

lemma performance_items_asdict:
  "performance_items (map (\<lambda>(pid, perf). (pid, asdict_performance perf)) ps) = Inr ps"
proof (induction ps)
  case Nil
  show ?case by simp
next
  case (Cons x ps)
  obtain pid perf where x: "x = (pid, perf)" by (cases x)
  obtain kw where kw: "asdict_performance perf = JObj kw"
    by (simp add: asdict_performance_def)
  show ?case using Cons x kw by (simp add: PersonaPerformance_init_asdict)
qed

lemma load_save_performance [simp]:
  "load_performance (save_performance ps m) = ps"
  by (simp add: load_performance_def save_performance_def load_performance_try_def
      performance_items_asdict)

subsection \<open>What each operation leaves alone\<close>

lemma save_state_fields [simp]:
  "current_context (save_state e m) = current_context m"
  "history_file (save_state e m) = history_file m"
  "performance_file (save_state e m) = performance_file m"
  "marker_files (save_state e m) = marker_files m"
  "ticks (save_state e m) = Suc (ticks m)"
  by (simp_all add: save_state_def now_def Let_def split_def)

lemma save_history_fields [simp]:
  "current_context (save_history h m) = current_context m"
  "history_file (save_history h m) = Document h"
  "performance_file (save_history h m) = performance_file m"
  "state_file (save_history h m) = state_file m"
  "marker_files (save_history h m) = marker_files m"
  "ticks (save_history h m) = ticks m"
  by (simp_all add: save_history_def)

lemma save_performance_fields [simp]:
  "current_context (save_performance ps m) = current_context m"
  "history_file (save_performance ps m) = history_file m"
  "state_file (save_performance ps m) = state_file m"
  "marker_files (save_performance ps m) = marker_files m"
  "ticks (save_performance ps m) = ticks m"
  by (simp_all add: save_performance_def)

lemma update_performance_fields [simp]:
  "current_context (update_performance c d m) = current_context m"
  "history_file (update_performance c d m) = history_file m"
  "state_file (update_performance c d m) = state_file m"
  "marker_files (update_performance c d m) = marker_files m"
  "ticks (update_performance c d m) = ticks m"
  by (simp_all add: update_performance_def Let_def)

lemma update_agent_context_fields [simp]:
  "current_context (update_agent_context a p ph m) = current_context m"
  "history_file (update_agent_context a p ph m) = history_file m"
  "performance_file (update_agent_context a p ph m) = performance_file m"
  "state_file (update_agent_context a p ph m) = state_file m"
  "ticks (update_agent_context a p ph m) = ticks m"
  by (simp_all add: update_agent_context_def create_agent_context_file_def
      split: option.splits)

lemma load_history_cong:
  "history_file m = history_file m' \<Longrightarrow> load_history m = load_history m'"
  by (simp add: load_history_def)

lemma load_performance_cong:
  "performance_file m = performance_file m' \<Longrightarrow> load_performance m = load_performance m'"
  by (simp add: load_performance_def)

section \<open>Properties of the performance aggregation\<close>

lemma load_update_performance:
  "load_performance (update_performance c d m) =
     AList.update (persona_id c)
       (update_metrics c d (record_of (load_performance m) (persona_id c)))
       (load_performance m)"
  by (simp add: update_performance_def Let_def record_of_def)

lemma record_of_update_same [simp]: "record_of (AList.update k v ps) k = v"
  by (simp add: record_of_def update_conv')

lemma record_of_update_other [simp]:
  "k' \<noteq> k \<Longrightarrow> record_of (AList.update k v ps) k' = record_of ps k'"
  by (simp add: record_of_def update_conv')

lemma total_sessions_update_metrics [simp]:
  "total_sessions (update_metrics c d perf) = total_sessions perf + 1"
  by (simp add: update_metrics_def Let_def split: option.splits)

lemma total_duration_update_metrics [simp]:
  "total_duration_seconds (update_metrics c d perf) = total_duration_seconds perf + d"
  by (simp add: update_metrics_def Let_def split: option.splits)

lemma artifacts_created_update_metrics [simp]:
  "artifacts_created (update_metrics c d perf) =
     artifacts_created perf + int (length (artifacts c))"
  by (simp add: update_metrics_def Let_def split: option.splits)

lemma error_count_update_metrics [simp]:
  "error_count (update_metrics c d perf) =
     error_count perf + (if has_error_note c then 1 else 0)"
  by (simp add: update_metrics_def Let_def split: option.splits)

lemma success_rate_update_metrics:
  "0 \<le> total_sessions perf \<Longrightarrow>
   success_rate (update_metrics c d perf) =
     of_int (total_sessions (update_metrics c d perf) - error_count (update_metrics c d perf))
       / of_int (total_sessions (update_metrics c d perf)) * 100"
  by (simp add: update_metrics_def Let_def split: option.splits)

section \<open>Properties of the lifecycle\<close>

lemma deactivate_active:
  assumes "current_context m = Some c"
      and "seconds_between e (activated_at c) (clock e (ticks m)) = Inr d"
      and "load_history m = JArr entries"
  shows "deactivate_persona e ai m =
           Inr (Some [(''status'', JStr ''deactivated''),
                      (''persona'', JStr (persona_id c)),
                      (''duration_seconds'', JFloat d),
                      (''artifacts'', JInt (int (length (artifacts c))))],
                save_state e
                  ((update_performance (deactivated e m c) d
                      (save_history (JArr (entries @ [asdict_context (deactivated e m c)]))
                         (m\<lparr>ticks := Suc (ticks m),
                            current_context := Some (deactivated e m c)\<rparr>)))
                   \<lparr>current_context := None\<rparr>))"
proof -
  have h: "load_history (m\<lparr>ticks := Suc (ticks m), current_context := Some (deactivated e m c)\<rparr>)
             = JArr entries"
    using assms(3) by (simp add: load_history_def)
  show ?thesis
    using assms(1,2) h
    by (simp add: deactivate_persona_def now_def Let_def deactivated_def history_append_def)
qed

lemma deactivate_marker_files:
  "deactivate_persona e ai m = Inr (r, m') \<Longrightarrow> marker_files m' = marker_files m"
  by (auto simp: deactivate_persona_def now_def Let_def split: option.splits sum.splits)

lemma activate_idle:
  assumes "current_context m = None"
  shows "activate_persona e pid ph ai m =
     Inr ([(''status'', JStr ''activated''), (''persona'', JStr pid),
           (''phase'', json_opt_str ph), (''activated_at'', JStr (clock e (ticks m)))],
          (case ai of None \<Rightarrow> (\<lambda>x. x)
           | Some a \<Rightarrow> if a = [] then (\<lambda>x. x) else update_agent_context a (Some pid) ph)
          (save_state e (m\<lparr>ticks := Suc (ticks m),
             current_context := Some \<lparr>persona_id = pid, activated_at = clock e (ticks m),
                deactivated_at = None, phase = ph, artifacts = [], metrics = [],
                notes_list = []\<rparr>\<rparr>)))"
  using assms by (simp add: activate_persona_def now_def Let_def split: option.splits)

subsection \<open>The example data\<close>

lemma example_seconds [simp]:
  "seconds_between example_env ''2024-05-01T09:00:00'' ''2024-05-01T09:10:00'' = Inr 600"
  "seconds_between example_env ''2024-05-01T09:10:00'' ''2024-05-01T09:10:00'' = Inr 0"
  "seconds_between example_env ''2024-05-01T09:00:00'' ''2024-05-01T09:00:00'' = Inr 0"
  by (simp_all add: example_env_def example_times_def)

lemma example_clock [simp]:
  "clock example_env 0 = ''2024-05-01T09:00:00''"
  "clock example_env (Suc n) = ''2024-05-01T09:10:00''"
  by (simp_all add: example_env_def)

section \<open>Folding sessions into the performance file\<close>

lemma ensure_files_state_file:
  "state_file m \<noteq> Missing \<Longrightarrow> state_file (ensure_files e m) = state_file m"
  by (simp add: ensure_files_def Let_def)

lemma fold_metrics_simps [simp]:
  "fold_metrics [] perf = perf"
  "fold_metrics (s # ss) perf = fold_metrics ss (update_metrics (fst s) (snd s) perf)"
  "fold_metrics (ss @ [s]) perf = update_metrics (fst s) (snd s) (fold_metrics ss perf)"
  by (simp_all add: fold_metrics_def)

lemma fold_sessions_record:
  "list_all (\<lambda>s. persona_id (fst s) = p) ss \<Longrightarrow>
   record_of (load_performance (fold_sessions ss m)) p
     = fold_metrics ss (record_of (load_performance m) p)"
proof (induction ss arbitrary: m)
  case Nil
  show ?case by simp
next
  case (Cons s ss)
  obtain c d where s: "s = (c, d)" by (cases s)
  from Cons.prems s have p: "persona_id c = p" and rest: "list_all (\<lambda>s. persona_id (fst s) = p) ss"
    by simp_all
  show ?case
    using Cons.IH [OF rest, of "update_performance c d m"] p
    by (simp add: s load_update_performance)
qed

lemma fold_sessions_keeps_key:
  "map_of (load_performance m) p \<noteq> None \<Longrightarrow>
   map_of (load_performance (fold_sessions ss m)) p \<noteq> None"
proof (induction ss arbitrary: m)
  case Nil
  then show ?case by simp
next
  case (Cons s ss)
  obtain c d where s: "s = (c, d)" by (cases s)
  have "map_of (load_performance (update_performance c d m)) p \<noteq> None"
    using Cons.prems by (simp add: load_update_performance update_conv')
  from Cons.IH [OF this] show ?case by (simp add: s)
qed

lemma fold_sessions_has_key:
  assumes "list_all (\<lambda>s. persona_id (fst s) = p) ss" and "ss \<noteq> []"
  shows "map_of (load_performance (fold_sessions ss m)) p
           = Some (record_of (load_performance (fold_sessions ss m)) p)"
proof -
  obtain c d rest where ss: "ss = (c, d) # rest"
    using assms(2) by (cases ss) auto
  with assms(1) have p: "persona_id c = p" by simp
  have "map_of (load_performance (update_performance c d m)) p \<noteq> None"
    using p by (simp add: load_update_performance update_conv')
  then have "map_of (load_performance (fold_sessions ss m)) p \<noteq> None"
    using fold_sessions_keeps_key [of "update_performance c d m" p rest] by (simp add: ss)
  then show ?thesis by (auto simp: record_of_def)
qed

lemma fold_metrics_total_sessions:
  "total_sessions (fold_metrics ss perf) = total_sessions perf + int (length ss)"
  by (induction ss rule: rev_induct) simp_all



lemma fold_metrics_error_count:
  "error_count (fold_metrics ss perf)
     = error_count perf + int (length (filter (\<lambda>s. has_error_note (fst s)) ss))"
  by (induction ss rule: rev_induct) simp_all

lemma fold_metrics_success_rate:
  assumes "0 \<le> total_sessions perf" and "ss \<noteq> []"
  shows "success_rate (fold_metrics ss perf)
     = of_int (total_sessions (fold_metrics ss perf) - error_count (fold_metrics ss perf))
         / of_int (total_sessions (fold_metrics ss perf)) * 100"
proof -
  obtain rest s where ss: "ss = rest @ [s]"
    using assms(2) by (cases ss rule: rev_cases) auto
  have "0 \<le> total_sessions (fold_metrics rest perf)"
    using assms(1) by (simp add: fold_metrics_total_sessions)
  from success_rate_update_metrics [OF this, of "fst s" "snd s"]
  show ?thesis by (simp add: ss)
qed

lemma record_of_empty [simp]: "record_of [] p = PersonaPerformance_new p"
  by (simp add: record_of_def)

lemma lower_char_E: "lower_char CHR ''E'' = CHR ''e''"
  by code_simp

lemma example_error_notes:
  "has_error_note (fst (example_sessions ! 0))"
  "\<not> has_error_note (fst (example_sessions ! 1))"
  by code_simp+

subsection \<open>The invariant of the records\<close>

lemma record_ok_new: "record_ok (PersonaPerformance_new pid)"
  by (simp add: record_ok_def PersonaPerformance_new_def)

lemma percent_bounds:
  fixes q :: rat
  shows "0 \<le> q \<Longrightarrow> q \<le> 1 \<Longrightarrow> 0 \<le> q * 100 \<and> q * 100 \<le> 100"
  by simp

lemma rate_bounds:
  fixes t e :: int
  assumes "0 \<le> e" "e \<le> t" "0 < t"
  shows "(0::rat) \<le> of_int (t - e) / of_int t * 100 \<and> of_int (t - e) / of_int t * 100 \<le> (100::rat)"
proof -
  have q0: "(0::rat) \<le> of_int (t - e) / of_int t"
    using assms by (intro divide_nonneg_pos) simp_all
  have q1: "of_int (t - e) / of_int t \<le> (1::rat)"
    using assms by (simp add: divide_le_eq_1)
  from q0 q1 show ?thesis by (rule percent_bounds)
qed

lemma record_ok_update_metrics:
  assumes "record_ok perf"
  shows "record_ok (update_metrics c d perf)"
proof -
  let ?new = "update_metrics c d perf"
  from assms have ec: "0 \<le> error_count perf" "error_count perf \<le> total_sessions perf"
    by (simp_all add: record_ok_def)
  then have ts: "0 \<le> total_sessions perf" by simp
  have e1: "0 \<le> error_count ?new" using ec by simp
  have e2: "error_count ?new \<le> total_sessions ?new" using ec by simp
  have t: "0 < total_sessions ?new" using ts by simp
  have sr: "success_rate ?new =
      of_int (total_sessions ?new - error_count ?new) / of_int (total_sessions ?new) * 100"
    by (rule success_rate_update_metrics [OF ts])
  from rate_bounds [OF e1 e2 t] e1 e2 show ?thesis
    unfolding record_ok_def sr by blast
qed

lemma set_update_subset: "set (AList.update k v al) \<subseteq> insert (k, v) (set al)"
  by (induction al) auto

lemma record_ok_record_of:
  "list_all (\<lambda>(pid, perf). record_ok perf) ps \<Longrightarrow> record_ok (record_of ps pid)"
  by (auto simp: record_of_def record_ok_new list_all_iff split: option.splits dest: map_of_SomeD)

lemma records_ok_update_performance:
  assumes "list_all (\<lambda>(pid, perf). record_ok perf) (load_performance m)"
  shows "list_all (\<lambda>(pid, perf). record_ok perf) (load_performance (update_performance c d m))"
proof -
  have "record_ok (update_metrics c d (record_of (load_performance m) (persona_id c)))"
    by (rule record_ok_update_metrics [OF record_ok_record_of [OF assms]])
  then show ?thesis
    using assms set_update_subset
      [of "persona_id c" "update_metrics c d (record_of (load_performance m) (persona_id c))"
          "load_performance m"]
    by (auto simp: load_update_performance list_all_iff)
qed

lemma records_ok_fold_sessions:
  "list_all (\<lambda>(pid, perf). record_ok perf) (load_performance m) \<Longrightarrow>
   list_all (\<lambda>(pid, perf). record_ok perf) (load_performance (fold_sessions ss m))"
proof (induction ss arbitrary: m)
  case Nil
  then show ?case by simp
next
  case (Cons s ss)
  obtain c d where s: "s = (c, d)" by (cases s)
  show ?case
    using Cons.IH [OF records_ok_update_performance [OF Cons.prems, of c d]] by (simp add: s)
qed

section \<open>Deactivations, one after the other\<close>

lemma load_performance_fields [simp]:
  "load_performance (m\<lparr>current_context := x\<rparr>) = load_performance m"
  "load_performance (m\<lparr>ticks := n\<rparr>) = load_performance m"
  "load_performance (save_history h m) = load_performance m"
  "load_performance (save_state e m) = load_performance m"
  by (simp_all add: load_performance_def)

lemma load_history_fields [simp]:
  "load_history (m\<lparr>current_context := x\<rparr>) = load_history m"
  "load_history (m\<lparr>ticks := n\<rparr>) = load_history m"
  "load_history (save_history h m) = h"
  "load_history (save_state e m) = load_history m"
  "load_history (update_performance c d m) = load_history m"
  "load_history (update_agent_context a p ph m) = load_history m"
  by (simp_all add: load_history_def)







section \<open>The invariant of the manager\<close>














lemma idle_manager_ok: "manager_ok example_env idle_manager"
  by (simp add: manager_ok_def history_ok_def history_entries_def idle_manager_def
      load_history_def)




section \<open>The claims\<close>

text \<open>
  C2. The claim: a call of deactivate while a persona is active, with an assistant
  given, triggers the notifier with no persona, which removes the marker file. The code
  does not: \<^verbatim>\<open>deactivate_persona\<close> takes \<^verbatim>\<open>ai_assistant\<close> and never uses it. Here the
  persona \<^verbatim>\<open>business-analyst\<close> is activated for the assistant \<^verbatim>\<open>claude\<close>, which writes
  the marker; the notifier called with no persona would remove it; the deactivation
  succeeds, leaves no current context, and the marker is still there.
\<close>

theorem deactivate_leaves_marker:
  "(case activate_persona example_env ''business-analyst'' (Some ''specify'') (Some ''claude'')
           idle_manager of
      Inl err \<Rightarrow> False
    | Inr (r1, m1) \<Rightarrow>
        marker_files m1 ''.claude/CURRENT_PERSONA.md''
          = Some (CurrentPersona ''business-analyst'' (Some ''specify''))
        \<and> marker_files (update_agent_context ''claude'' None None m1)
            ''.claude/CURRENT_PERSONA.md'' = None
        \<and> (case deactivate_persona example_env (Some ''claude'') m1 of
             Inl err \<Rightarrow> False
           | Inr (r2, m2) \<Rightarrow>
               r2 \<noteq> None \<and> current_context m2 = None
               \<and> marker_files m2 ''.claude/CURRENT_PERSONA.md''
                   = Some (CurrentPersona ''business-analyst'' (Some ''specify''))))"
proof -
  have idle: "current_context idle_manager = None" by (simp add: idle_manager_def)
  obtain r1 m1 where a: "activate_persona example_env ''business-analyst'' (Some ''specify'')
      (Some ''claude'') idle_manager = Inr (r1, m1)"
    by (simp add: activate_idle [OF idle])
  have m1: "m1 = update_agent_context ''claude'' (Some ''business-analyst'') (Some ''specify'')
      (save_state example_env (idle_manager\<lparr>ticks := Suc (ticks idle_manager),
             current_context := Some \<lparr>persona_id = ''business-analyst'',
                activated_at = clock example_env (ticks idle_manager),
                deactivated_at = None, phase = Some ''specify'', artifacts = [], metrics = [],
                notes_list = []\<rparr>\<rparr>))"
    using a by (simp add: activate_idle [OF idle])
  have mk: "marker_files m1 ''.claude/CURRENT_PERSONA.md''
          = Some (CurrentPersona ''business-analyst'' (Some ''specify''))"
    by (simp add: m1 update_agent_context_def create_agent_context_file_def context_paths_def)
  have clr: "marker_files (update_agent_context ''claude'' None None m1)
            ''.claude/CURRENT_PERSONA.md'' = None"
    by (simp add: update_agent_context_def create_agent_context_file_def context_paths_def)
  have cur: "current_context m1 = Some \<lparr>persona_id = ''business-analyst'',
                activated_at = ''2024-05-01T09:00:00'',
                deactivated_at = None, phase = Some ''specify'', artifacts = [], metrics = [],
                notes_list = []\<rparr>"
    by (simp add: m1 idle_manager_def)
  have tk: "ticks m1 = Suc (Suc 0)" by (simp add: m1 idle_manager_def)
  have hist: "load_history m1 = JArr []"
    by (simp add: m1 load_history_def idle_manager_def)
  note d = deactivate_active [OF cur _ hist, of example_env 600 "Some ''claude''"]
  have d': "\<exists>r2 m2. deactivate_persona example_env (Some ''claude'') m1 = Inr (Some r2, m2)
      \<and> current_context m2 = None \<and> marker_files m2 = marker_files m1"
    using d by (simp add: tk)
  then show ?thesis using a mk clr by auto
qed

text \<open>
  C7. On a manager with no current context, \<^verbatim>\<open>deactivate_persona\<close> returns \<^verbatim>\<open>None\<close>
  (the sign that there was nothing to deactivate) and changes nothing: the manager
  after the call is the manager before it, so the history file and the performance file
  are the ones before the call.
\<close>

theorem deactivate_idle_noop:
  "current_context m = None \<Longrightarrow>
     deactivate_persona e ai m = Inr (None, m)
     \<and> (\<forall>r m'. deactivate_persona e ai m = Inr (r, m') \<longrightarrow>
           r = None \<and> history_file m' = history_file m
           \<and> performance_file m' = performance_file m)"
  by (simp add: deactivate_persona_def)

theorem deactivate_idle_noop_witness:
  "current_context idle_manager = None
   \<and> deactivate_persona example_env (Some ''claude'') idle_manager = Inr (None, idle_manager)"
  using deactivate_idle_noop [of idle_manager example_env "Some ''claude''"]
  by (simp add: idle_manager_def)

text \<open>
  C5. When a context is current, \<^verbatim>\<open>_save_state\<close> followed by the parse of
  \<^verbatim>\<open>_load_state\<close> gives that context back, equal in every field: the \<^verbatim>\<open>try\<close> of
  \<^verbatim>\<open>_load_state\<close> succeeds with it, \<^verbatim>\<open>_load_state\<close> on the manager assigns it, and a
  manager built afterwards on the same files (by \<^verbatim>\<open>__init__\<close>) has it as its current
  context.
\<close>

theorem save_then_load_roundtrip:
  "current_context m = Some c \<Longrightarrow>
     load_state_try (state_file (save_state e m)) = Inr (Some c)
     \<and> current_context (load_state ((save_state e m)\<lparr>current_context := None\<rparr>)) = Some c
     \<and> current_context (PersonaManager_init e' (save_state e m)) = Some c"
proof -
  assume c: "current_context m = Some c"
  have t: "load_state_try (state_file (save_state e m)) = Inr (Some c)"
    using c by (simp add: load_state_try_save)
  have d: "state_file (save_state e m) \<noteq> Missing"
    by (simp add: save_state_def now_def Let_def split_def)
  have "state_file (ensure_files e' ((save_state e m)\<lparr>current_context := None\<rparr>))
          = state_file (save_state e m)"
    using d by (simp add: ensure_files_state_file)
  then have i: "current_context (PersonaManager_init e' (save_state e m)) = Some c"
    using t by (simp add: PersonaManager_init_def load_state_def)
  show ?thesis using t i by (simp add: load_state_def)
qed

theorem save_then_load_roundtrip_witness:
  "current_context active_manager = Some example_context
   \<and> load_state_try (state_file (save_state example_env active_manager))
       = Inr (Some example_context)
   \<and> current_context (PersonaManager_init example_env (save_state example_env active_manager))
       = Some example_context"
  using save_then_load_roundtrip [of active_manager example_context example_env example_env]
  by (simp add: active_manager_def)


text \<open>
  C9. On an active context, \<^verbatim>\<open>add_artifact\<close> appends the path to the artifacts,
  \<^verbatim>\<open>add_note\<close> appends the stamped note to the notes and \<^verbatim>\<open>update_phase\<close> replaces
  the phase; each leaves every other field as it was, so \<^verbatim>\<open>persona_id\<close>,
  \<^verbatim>\<open>activated_at\<close> and \<^verbatim>\<open>deactivated_at\<close> do not change.
\<close>

theorem context_mutations_frame:
  "current_context m = Some c \<Longrightarrow>
     current_context (add_artifact e p m) = Some (c\<lparr>artifacts := artifacts c @ [p]\<rparr>)
     \<and> current_context (add_note e n m) =
         Some (c\<lparr>notes_list := notes_list c @ [''['' @ clock e (ticks m) @ ''] '' @ n]\<rparr>)
     \<and> current_context (update_phase e ph m) = Some (c\<lparr>phase := Some ph\<rparr>)
     \<and> (\<forall>c'. current_context (add_artifact e p m) = Some c'
             \<or> current_context (add_note e n m) = Some c'
             \<or> current_context (update_phase e ph m) = Some c' \<longrightarrow>
           persona_id c' = persona_id c \<and> activated_at c' = activated_at c
           \<and> deactivated_at c' = deactivated_at c \<and> metrics c' = metrics c)"
  by (auto simp add: add_artifact_def add_note_def update_phase_def now_def)

theorem context_mutations_frame_witness:
  "current_context active_manager = Some example_context
   \<and> current_context (add_artifact example_env ''docs/ba/scope.md'' active_manager)
       = Some (example_context\<lparr>artifacts := [''docs/ba/requirements.md'', ''docs/ba/scope.md'']\<rparr>)
   \<and> current_context (add_note example_env ''reviewed'' active_manager)
       = Some (example_context\<lparr>notes_list := [''[2024-05-01T09:10:00] reviewed'']\<rparr>)
   \<and> current_context (update_phase example_env ''plan'' active_manager)
       = Some (example_context\<lparr>phase := Some ''plan''\<rparr>)"
  using context_mutations_frame [of active_manager example_context example_env
      "''docs/ba/scope.md''" "''reviewed''" "''plan''"]
  by (simp add: active_manager_def example_context_def)

text \<open>
  C4. The record that \<^verbatim>\<open>PersonaPerformance(persona_id=p)\<close> creates has no session and
  a success rate of 100. Starting from the empty performance mapping, after the sessions
  \<open>ss\<close> of the persona \<open>p\<close> have been folded in (there is at least one), the record of
  \<open>p\<close> counts \<open>S = length ss\<close> sessions, its \<^verbatim>\<open>error_count\<close> is the number \<open>E\<close> of
  sessions with a note that contains \<^verbatim>\<open>error\<close> in any case, and its \<^verbatim>\<open>success_rate\<close>
  is \<open>(S - E) / S * 100\<close>.
\<close>

theorem success_rate_formula:
  assumes "load_performance m = []"
      and "list_all (\<lambda>s. persona_id (fst s) = p) ss"
  shows "success_rate (PersonaPerformance_new p) = 100
     \<and> total_sessions (PersonaPerformance_new p) = 0
     \<and> (ss \<noteq> [] \<longrightarrow>
          (\<exists>perf. map_of (load_performance (fold_sessions ss m)) p = Some perf
             \<and> total_sessions perf = int (length ss)
             \<and> error_count perf = int (length (filter (\<lambda>s. has_error_note (fst s)) ss))
             \<and> success_rate perf =
                 of_int (int (length ss) - int (length (filter (\<lambda>s. has_error_note (fst s)) ss)))
                   / of_int (int (length ss)) * 100))"
proof -
  let ?perf = "record_of (load_performance (fold_sessions ss m)) p"
  have r: "?perf = fold_metrics ss (PersonaPerformance_new p)"
    using fold_sessions_record [OF assms(2), of m] by (simp add: assms(1))
  have ts: "total_sessions ?perf = int (length ss)"
    by (simp add: r fold_metrics_total_sessions PersonaPerformance_new_def)
  have ec: "error_count ?perf = int (length (filter (\<lambda>s. has_error_note (fst s)) ss))"
    by (simp add: r fold_metrics_error_count PersonaPerformance_new_def)
  have sr: "ss \<noteq> [] \<Longrightarrow> success_rate ?perf =
      of_int (total_sessions ?perf - error_count ?perf) / of_int (total_sessions ?perf) * 100"
    unfolding r by (rule fold_metrics_success_rate) (simp_all add: PersonaPerformance_new_def)
  have key: "ss \<noteq> [] \<Longrightarrow> map_of (load_performance (fold_sessions ss m)) p = Some ?perf"
    by (rule fold_sessions_has_key [OF assms(2)])
  have new: "success_rate (PersonaPerformance_new p) = 100"
      "total_sessions (PersonaPerformance_new p) = 0"
    by (simp_all add: PersonaPerformance_new_def)
  show ?thesis
  proof (intro conjI impI)
    assume ne: "ss \<noteq> []"
    show "\<exists>perf. map_of (load_performance (fold_sessions ss m)) p = Some perf
             \<and> total_sessions perf = int (length ss)
             \<and> error_count perf = int (length (filter (\<lambda>s. has_error_note (fst s)) ss))
             \<and> success_rate perf =
                 of_int (int (length ss) - int (length (filter (\<lambda>s. has_error_note (fst s)) ss)))
                   / of_int (int (length ss)) * 100"
      using key [OF ne] ts ec sr [OF ne] by (intro exI [of _ ?perf]) simp
  qed (simp_all add: new)
qed
theorem success_rate_formula_witness:
  "load_performance idle_manager = []
   \<and> list_all (\<lambda>s. persona_id (fst s) = ''tech-lead'') example_sessions
   \<and> example_sessions \<noteq> []
   \<and> (\<exists>perf. map_of (load_performance (fold_sessions example_sessions idle_manager)) ''tech-lead''
                = Some perf
          \<and> total_sessions perf = 2 \<and> error_count perf = 1 \<and> success_rate perf = 50)"
proof -
  have e: "filter (\<lambda>s. has_error_note (fst s)) example_sessions = [example_sessions ! 0]"
    using example_error_notes by (simp add: example_sessions_def)
  have l: "load_performance idle_manager = []"
    by (simp add: idle_manager_def load_performance_def load_performance_try_def)
  have p: "list_all (\<lambda>s. persona_id (fst s) = ''tech-lead'') example_sessions"
    by (simp add: example_sessions_def)
  have n: "example_sessions \<noteq> []" "length example_sessions = 2"
    by (simp_all add: example_sessions_def)
  show ?thesis
    using success_rate_formula [OF l p] l p n by (simp add: e)
qed

text \<open>
  C10. In every performance mapping that a list of session folds builds from the empty
  mapping, every record has \<^verbatim>\<open>error_count\<close> at most \<^verbatim>\<open>total_sessions\<close> and a
  \<^verbatim>\<open>success_rate\<close> between 0 and 100. One more fold of a session adds exactly 1 to the
  \<^verbatim>\<open>total_sessions\<close> of the persona of the session, and 0 or 1 to its \<^verbatim>\<open>error_count\<close>.
\<close>

theorem performance_invariant:
  assumes "load_performance m = []"
  shows "list_all (\<lambda>(pid, perf). error_count perf \<le> total_sessions perf
                     \<and> 0 \<le> success_rate perf \<and> success_rate perf \<le> 100)
           (load_performance (fold_sessions ss m))
     \<and> total_sessions (record_of (load_performance (update_performance c d (fold_sessions ss m)))
           (persona_id c))
         = total_sessions (record_of (load_performance (fold_sessions ss m)) (persona_id c)) + 1
     \<and> error_count (record_of (load_performance (fold_sessions ss m)) (persona_id c))
         \<le> error_count (record_of (load_performance (update_performance c d (fold_sessions ss m)))
              (persona_id c))
     \<and> error_count (record_of (load_performance (update_performance c d (fold_sessions ss m)))
              (persona_id c))
         \<le> error_count (record_of (load_performance (fold_sessions ss m)) (persona_id c)) + 1"
proof -
  have "list_all (\<lambda>(pid, perf). record_ok perf) (load_performance m)"
    by (simp add: assms)
  from records_ok_fold_sessions [OF this, of ss]
  have "list_all (\<lambda>(pid, perf). error_count perf \<le> total_sessions perf
                     \<and> 0 \<le> success_rate perf \<and> success_rate perf \<le> 100)
           (load_performance (fold_sessions ss m))"
    by (auto simp: list_all_iff record_ok_def)
  then show ?thesis by (simp add: load_update_performance)
qed

theorem performance_invariant_witness:
  "load_performance idle_manager = []
   \<and> list_all (\<lambda>(pid, perf). error_count perf \<le> total_sessions perf
                     \<and> 0 \<le> success_rate perf \<and> success_rate perf \<le> 100)
           (load_performance (fold_sessions example_sessions idle_manager))"
proof -
  have l: "load_performance idle_manager = []"
    by (simp add: idle_manager_def load_performance_def load_performance_try_def)
  show ?thesis
    using performance_invariant [OF l, of example_sessions] l by simp
qed







end
